theory Spec2Isabelle
  imports Main "HOL-Library.Word" "HOL-Library.Multiset"
begin

section \<open>The FarmingSimFHE contract (contracts/Farming\_Sim\_FHE.sol)\<close>

text \<open>
  A shallow embedding of the Solidity contract \<^verbatim>\<open>FarmingSimFHE\<close>. Storage is a record,
  every external function is a function from the storage before the call to a result and
  the storage at the point where execution stopped. A revert is the result \<open>Inl e\<close>; the
  statements of a function body are run one after the other by \<open>do_seq\<close>, which stops at
  the first revert and hands back the storage as it was written so far, so that "nothing is
  written before a failed check" is a property of the model and not of its result type.
  The rollback that the EVM applies to a reverted transaction is \<open>transact\<close>.
\<close>

subsection \<open>Value types\<close>

type_synonym uint256 = "256 word"
type_synonym uint32 = "32 word"
type_synonym bytes32 = "256 word"
type_synonym address = "160 word"
type_synonym bytes = "8 word list"

text \<open>
  The custom errors the contract declares, then the other ways a call of this
  contract reverts: a failed \<^verbatim>\<open>require(cond, "message")\<close>, the arithmetic panic of
  checked \<^verbatim>\<open>uint256\<close> arithmetic (Solidity 0.8), a failed \<^verbatim>\<open>abi.decode\<close>, and a revert
  inside \<^verbatim>\<open>FHE.checkSignatures\<close>.
\<close>

datatype error =
    NotOwner | NotProvider | Paused | InvalidState | TooFrequent
  | BatchClosed | BatchFull | InvalidBatch | StaleWrite | NotTrustedRelayer
  | Error string
  | Panic nat
  | AbiDecodeRevert
  | InvalidSignatures

datatype event =
    OwnershipTransferred address address
  | ProviderAdded address
  | ProviderRemoved address
  | Paused_event address
  | Unpaused address
  | CooldownUpdated uint256 uint256
  | BatchSizeLimitUpdated uint256 uint256
  | BatchOpened uint256 uint256
  | BatchClosed_event uint256
  | CropSubmitted address uint256 uint256
  | DecryptionRequested uint256 uint256 address
  | DecryptionCompleted uint256 uint256 uint32
  | ModelVersionUpdated uint256 uint256

record Batch =
  exists :: bool
  closed :: bool
  createdAt :: uint256
  closedAt :: uint256
  modelVersion :: uint256

record DecryptionContext =
  ctx_batchId :: uint256
  ctx_modelVersion :: uint256
  ctx_stateHash :: bytes32
  ctx_processed :: bool
  ctx_requester :: address

text \<open>
  The storage of the contract. \<open>'c\<close> is the ciphertext type \<^verbatim>\<open>euint32\<close> of the FHE
  library, which the contract treats as opaque. \<open>events\<close> is the log of the events
  emitted so far.
\<close>

record 'c state =
  owner :: address
  paused :: bool
  cooldownInterval :: uint256
  batchSizeLimit :: uint256
  currentModelVersion :: uint256
  providers :: "address \<Rightarrow> bool"
  lastActionAt :: "address \<Rightarrow> uint256"
  batches :: "uint256 \<Rightarrow> Batch"
  decryptionContexts :: "uint256 \<Rightarrow> DecryptionContext"
  batchAccumulators :: "uint256 \<Rightarrow> uint256 \<Rightarrow> 'c"
  batchSizes :: "uint256 \<Rightarrow> uint256 \<Rightarrow> uint256"
  batchVersions :: "uint256 \<Rightarrow> uint256 \<Rightarrow> uint256"
  events :: "event list"

text \<open>
  What the contract takes from outside its own source: its address, the two Keccak
  hashes it computes, and the FHE library (\<^verbatim>\<open>@fhevm/solidity/lib/FHE.sol\<close>). They are
  parameters of the model; nothing is assumed about them except where a theorem says so.
  \<^item> \<open>this\<close> is \<^verbatim>\<open>address(this)\<close>;
  \<^item> \<open>keccak_batchId a v t\<close> is
    \<^verbatim>\<open>uint256(keccak256(abi.encodePacked(a, v, t)))\<close>;
  \<^item> \<open>keccak_cts cts a\<close> is \<^verbatim>\<open>keccak256(abi.encode(cts, a))\<close>;
  \<^item> \<open>fhe_zero\<close> is \<^verbatim>\<open>euint32\<close>'s default value (an unset storage slot);
  \<^item> \<open>fhe_add\<close>, \<open>fhe_asEuint32\<close>, \<open>fhe_isInitialized\<close>, \<open>fhe_toBytes32\<close> and
    \<open>fhe_checkSignatures\<close> are the library functions of those names, the last one as
    the predicate "does not revert".
  The other library calls (\<^verbatim>\<open>FHE.add\<close>, \<^verbatim>\<open>FHE.asEuint32\<close>, \<^verbatim>\<open>FHE.requestDecryption\<close>)
  are taken to return.
\<close>

record 'c env =
  this :: address
  keccak_batchId :: "address \<Rightarrow> uint256 \<Rightarrow> uint256 \<Rightarrow> uint256"
  keccak_cts :: "bytes32 list \<Rightarrow> address \<Rightarrow> bytes32"
  fhe_zero :: 'c
  fhe_add :: "'c \<Rightarrow> 'c \<Rightarrow> 'c"
  fhe_asEuint32 :: "uint32 \<Rightarrow> 'c"
  fhe_isInitialized :: "'c \<Rightarrow> bool"
  fhe_toBytes32 :: "'c \<Rightarrow> bytes32"
  fhe_checkSignatures :: "uint256 \<Rightarrow> bytes \<Rightarrow> bytes \<Rightarrow> bool"

subsection \<open>Statements\<close>

type_synonym 'c stmt = "'c state \<Rightarrow> (error + unit) \<times> 'c state"

definition revert :: "error \<Rightarrow> 'c stmt" where
  "revert e s = (Inl e, s)"

definition skip :: "'c stmt" where
  "skip s = (Inr (), s)"

definition require :: "bool \<Rightarrow> string \<Rightarrow> 'c stmt" where
  "require c msg = (if c then skip else revert (Error msg))"

definition sstore :: "('c state \<Rightarrow> 'c state) \<Rightarrow> 'c stmt" where
  "sstore f s = (Inr (), f s)"

definition emit :: "event \<Rightarrow> 'c stmt" where
  "emit ev = sstore (\<lambda>s. s\<lparr>events := events s @ [ev]\<rparr>)"

fun do_seq :: "'c stmt list \<Rightarrow> 'c stmt" where
  "do_seq [] s = (Inr (), s)"
| "do_seq (m # ms) s =
     (case m s of
        (Inl e, s') \<Rightarrow> (Inl e, s')
      | (Inr _, s') \<Rightarrow> do_seq ms s')"

text \<open>Checked \<^verbatim>\<open>uint256\<close> addition: Solidity 0.8 panics with code 0x11 on overflow.\<close>

definition checked_add :: "uint256 \<Rightarrow> uint256 \<Rightarrow> uint256 option" where
  "checked_add a b = (if unat a + unat b < 2 ^ 256 then Some (a + b) else None)"

subsection \<open>Modifiers\<close>

definition onlyOwner :: "address \<Rightarrow> 'c stmt" where
  "onlyOwner sender s = (if sender \<noteq> owner s then revert NotOwner s else skip s)"

definition onlyProvider :: "address \<Rightarrow> 'c stmt" where
  "onlyProvider sender s = (if \<not> providers s sender then revert NotProvider s else skip s)"

definition whenNotPaused :: "'c stmt" where
  "whenNotPaused s = (if paused s then revert Paused s else skip s)"

definition checkCooldown :: "address \<Rightarrow> uint256 \<Rightarrow> uint256 \<Rightarrow> 'c stmt" where
  "checkCooldown sender now interval s =
     (case checked_add (lastActionAt s sender) interval of
        None \<Rightarrow> revert (Panic 17) s
      | Some t \<Rightarrow> if now < t then revert TooFrequent s else skip s)"

subsection \<open>Construction and administration\<close>


definition zero_storage :: "'c env \<Rightarrow> 'c state" where
  "zero_storage env =
     \<lparr> owner = 0, paused = False, cooldownInterval = 10, batchSizeLimit = 5,
       currentModelVersion = 0,
       providers = (\<lambda>_. False),
       lastActionAt = (\<lambda>_. 0),
       batches = (\<lambda>_. \<lparr>exists = False, closed = False, createdAt = 0, closedAt = 0,
                         modelVersion = 0\<rparr>),
       decryptionContexts = (\<lambda>_. \<lparr>ctx_batchId = 0, ctx_modelVersion = 0, ctx_stateHash = 0,
                                    ctx_processed = False, ctx_requester = 0\<rparr>),
       batchAccumulators = (\<lambda>_ _. fhe_zero env),
       batchSizes = (\<lambda>_ _. 0),
       batchVersions = (\<lambda>_ _. 0),
       events = [] \<rparr>"

definition constructor_body :: "address \<Rightarrow> 'c stmt" where
  "constructor_body sender = do_seq
     [ sstore (\<lambda>s. s\<lparr>owner := sender\<rparr>),
       sstore (\<lambda>s. s\<lparr>providers := (providers s)(owner s := True)\<rparr>),
       sstore (\<lambda>s. s\<lparr>currentModelVersion := 1\<rparr>),
       (\<lambda>s. emit (ProviderAdded (owner s)) s),
       (\<lambda>s. emit (ModelVersionUpdated 0 (currentModelVersion s)) s) ]"

definition constructor :: "'c env \<Rightarrow> address \<Rightarrow> 'c state" where
  "constructor env sender = snd (constructor_body sender (zero_storage env))"

definition transferOwnership :: "address \<Rightarrow> address \<Rightarrow> 'c stmt" where
  "transferOwnership sender newOwner = do_seq
     [ onlyOwner sender,
       (\<lambda>s. let oldOwner = owner s in
          do_seq [ sstore (\<lambda>s. s\<lparr>owner := newOwner\<rparr>),
                   emit (OwnershipTransferred oldOwner newOwner) ] s) ]"

definition addProvider :: "address \<Rightarrow> address \<Rightarrow> 'c stmt" where
  "addProvider sender provider = do_seq
     [ onlyOwner sender,
       (\<lambda>s. if \<not> providers s provider
             then do_seq [ sstore (\<lambda>s. s\<lparr>providers := (providers s)(provider := True)\<rparr>),
                           emit (ProviderAdded provider) ] s
             else skip s) ]"

definition removeProvider :: "address \<Rightarrow> address \<Rightarrow> 'c stmt" where
  "removeProvider sender provider = do_seq
     [ onlyOwner sender,
       (\<lambda>s. if providers s provider
             then do_seq [ sstore (\<lambda>s. s\<lparr>providers := (providers s)(provider := False)\<rparr>),
                           emit (ProviderRemoved provider) ] s
             else skip s) ]"

definition setPaused :: "address \<Rightarrow> bool \<Rightarrow> 'c stmt" where
  "setPaused sender paused' = do_seq
     [ onlyOwner sender,
       (\<lambda>s. if paused' \<noteq> paused s
             then do_seq [ sstore (\<lambda>s. s\<lparr>paused := paused'\<rparr>),
                           (if paused' then emit (Paused_event sender)
                            else emit (Unpaused sender)) ] s
             else skip s) ]"

definition setCooldownInterval :: "address \<Rightarrow> uint256 \<Rightarrow> 'c stmt" where
  "setCooldownInterval sender newInterval = do_seq
     [ onlyOwner sender,
       (\<lambda>s. let oldInterval = cooldownInterval s in
          do_seq [ sstore (\<lambda>s. s\<lparr>cooldownInterval := newInterval\<rparr>),
                   emit (CooldownUpdated oldInterval newInterval) ] s) ]"

definition setBatchSizeLimit :: "address \<Rightarrow> uint256 \<Rightarrow> 'c stmt" where
  "setBatchSizeLimit sender newLimit = do_seq
     [ onlyOwner sender,
       require (newLimit > 0) ''Invalid limit'',
       (\<lambda>s. let oldLimit = batchSizeLimit s in
          do_seq [ sstore (\<lambda>s. s\<lparr>batchSizeLimit := newLimit\<rparr>),
                   emit (BatchSizeLimitUpdated oldLimit newLimit) ] s) ]"

definition incrementModelVersion :: "address \<Rightarrow> 'c stmt" where
  "incrementModelVersion sender = do_seq
     [ onlyOwner sender,
       (\<lambda>s. let oldVersion = currentModelVersion s in
          (case checked_add (currentModelVersion s) 1 of
             None \<Rightarrow> revert (Panic 17) s
           | Some v \<Rightarrow>
               do_seq [ sstore (\<lambda>s. s\<lparr>currentModelVersion := v\<rparr>),
                        (\<lambda>s. emit (ModelVersionUpdated oldVersion (currentModelVersion s)) s) ]
                 s)) ]"

subsection \<open>Batch life cycle\<close>

definition openBatch :: "'c env \<Rightarrow> address \<Rightarrow> uint256 \<Rightarrow> 'c stmt" where
  "openBatch env sender now = do_seq
     [ onlyProvider sender,
       whenNotPaused,
       (\<lambda>s. checkCooldown sender now (cooldownInterval s) s),
       (\<lambda>s. let batchId = keccak_batchId env (this env) (currentModelVersion s) now in
          do_seq
            [ (\<lambda>s. require (\<not> exists (batches s batchId)) ''Batch exists'' s),
              sstore (\<lambda>s. s\<lparr>batches := (batches s)(batchId :=
                        \<lparr>exists = True, closed = False, createdAt = now, closedAt = 0,
                         modelVersion = currentModelVersion s\<rparr>)\<rparr>),
              sstore (\<lambda>s. s\<lparr>lastActionAt := (lastActionAt s)(sender := now)\<rparr>),
              (\<lambda>s. emit (BatchOpened batchId (currentModelVersion s)) s) ] s) ]"

definition closeBatch :: "address \<Rightarrow> uint256 \<Rightarrow> uint256 \<Rightarrow> 'c stmt" where
  "closeBatch sender now batchId = do_seq
     [ onlyProvider sender,
       whenNotPaused,
       (\<lambda>s. require (exists (batches s batchId)) ''Batch not found'' s),
       (\<lambda>s. require (\<not> closed (batches s batchId)) ''Batch closed'' s),
       sstore (\<lambda>s. s\<lparr>batches := (batches s)(batchId := (batches s batchId)\<lparr>closed := True\<rparr>)\<rparr>),
       sstore (\<lambda>s. s\<lparr>batches := (batches s)(batchId := (batches s batchId)\<lparr>closedAt := now\<rparr>)\<rparr>),
       emit (BatchClosed_event batchId) ]"

text \<open>
  \<^verbatim>\<open>submitCrop\<close>. The local \<^verbatim>\<open>acc\<close> is read from storage, replaced by an encrypted zero
  when it is not initialised, added to, and written back; \<^verbatim>\<open>currentSize + 1\<close> is checked
  arithmetic.
\<close>

definition submitCrop ::
  "'c env \<Rightarrow> address \<Rightarrow> uint256 \<Rightarrow> uint256 \<Rightarrow> 'c \<Rightarrow> 'c \<Rightarrow> 'c \<Rightarrow> 'c stmt" where
  "submitCrop env sender now batchId yield' resistance' growthRate' = do_seq
     [ onlyProvider sender,
       whenNotPaused,
       (\<lambda>s. checkCooldown sender now (cooldownInterval s) s),
       (\<lambda>s. require (exists (batches s batchId)) ''Batch not found'' s),
       (\<lambda>s. require (\<not> closed (batches s batchId)) ''Batch closed'' s),
       (\<lambda>s. require (modelVersion (batches s batchId) = currentModelVersion s) ''Stale batch'' s),
       (\<lambda>s. let currentSize = batchSizes s batchId (currentModelVersion s) in
          do_seq
            [ (\<lambda>s. require (currentSize < batchSizeLimit s) ''Batch full'' s),
              (\<lambda>s. let totalScore = fhe_add env (fhe_add env yield' resistance') growthRate';
                        acc0 = batchAccumulators s batchId (currentModelVersion s);
                        acc1 = (if \<not> fhe_isInitialized env acc0 then fhe_asEuint32 env 0
                                else acc0);
                        acc2 = fhe_add env acc1 totalScore in
                 do_seq
                   [ sstore (\<lambda>s. s\<lparr>batchAccumulators := (batchAccumulators s)(batchId :=
                               (batchAccumulators s batchId)(currentModelVersion s := acc2))\<rparr>),
                     (\<lambda>s. case checked_add currentSize 1 of
                             None \<Rightarrow> revert (Panic 17) s
                           | Some n \<Rightarrow>
                               sstore (\<lambda>s. s\<lparr>batchSizes := (batchSizes s)(batchId :=
                                  (batchSizes s batchId)(currentModelVersion s := n))\<rparr>) s),
                     sstore (\<lambda>s. s\<lparr>batchVersions := (batchVersions s)(batchId :=
                               (batchVersions s batchId)
                                 (currentModelVersion s := currentModelVersion s))\<rparr>),
                     sstore (\<lambda>s. s\<lparr>lastActionAt := (lastActionAt s)(sender := now)\<rparr>),
                     (\<lambda>s. emit (CropSubmitted sender batchId (currentModelVersion s)) s) ] s)
            ] s) ]"

subsection \<open>Decryption requests and the oracle callback\<close>

definition hashCiphertexts :: "'c env \<Rightarrow> bytes32 list \<Rightarrow> bytes32" where
  "hashCiphertexts env cts = keccak_cts env cts (this env)"

definition requireInitialized :: "'c env \<Rightarrow> 'c \<Rightarrow> 'c stmt" where
  "requireInitialized env x s =
     (if \<not> fhe_isInitialized env x then revert InvalidState s else skip s)"

definition initIfNeeded :: "'c env \<Rightarrow> 'c \<Rightarrow> 'c" where
  "initIfNeeded env x = (if \<not> fhe_isInitialized env x then fhe_asEuint32 env 0 else x)"

text \<open>
  \<^verbatim>\<open>requestBatchDecryption\<close>. The request identifier is what the library call
  \<^verbatim>\<open>FHE.requestDecryption(cts, this.onBatchDecrypted.selector)\<close> returns; the library
  chooses it, so it is the argument \<open>requestId\<close> of the model.
\<close>

definition requestBatchDecryption ::
  "'c env \<Rightarrow> address \<Rightarrow> uint256 \<Rightarrow> uint256 \<Rightarrow> uint256 \<Rightarrow> 'c stmt" where
  "requestBatchDecryption env sender now batchId requestId = do_seq
     [ whenNotPaused,
       (\<lambda>s. checkCooldown sender now (cooldownInterval s) s),
       (\<lambda>s. require (exists (batches s batchId)) ''Batch not found'' s),
       (\<lambda>s. require (closed (batches s batchId)) ''Batch not closed'' s),
       (\<lambda>s. require (modelVersion (batches s batchId) = currentModelVersion s) ''Stale batch'' s),
       (\<lambda>s. let acc = batchAccumulators s batchId (currentModelVersion s) in
          do_seq
            [ requireInitialized env acc,
              (\<lambda>s. let cts = [fhe_toBytes32 env acc];
                        stateHash = hashCiphertexts env cts in
                 do_seq
                   [ sstore (\<lambda>s. s\<lparr>decryptionContexts := (decryptionContexts s)(requestId :=
                        \<lparr>ctx_batchId = batchId, ctx_modelVersion = currentModelVersion s,
                         ctx_stateHash = stateHash, ctx_processed = False,
                         ctx_requester = sender\<rparr>)\<rparr>),
                     sstore (\<lambda>s. s\<lparr>lastActionAt := (lastActionAt s)(sender := now)\<rparr>),
                     emit (DecryptionRequested requestId batchId sender) ] s) ] s) ]"

text \<open>
  \<^verbatim>\<open>abi.decode(cleartexts, (uint32))\<close>: the first 32 bytes, read as a big-endian number,
  which must fit 32 bits; the call reverts on shorter input and on a larger number.
\<close>

definition be_nat :: "bytes \<Rightarrow> nat" where
  "be_nat bs = foldl (\<lambda>a b. a * 256 + unat b) 0 bs"

definition abi_decode_uint32 :: "bytes \<Rightarrow> uint32 option" where
  "abi_decode_uint32 cleartexts =
     (if length cleartexts < 32 then None
      else let v = be_nat (take 32 cleartexts) in
        if v < 2 ^ 32 then Some (of_nat v) else None)"

definition onBatchDecrypted :: "'c env \<Rightarrow> uint256 \<Rightarrow> bytes \<Rightarrow> bytes \<Rightarrow> 'c stmt" where
  "onBatchDecrypted env requestId cleartexts proof' = do_seq
     [ (\<lambda>s. require (\<not> ctx_processed (decryptionContexts s requestId)) ''Request processed'' s),
       (\<lambda>s. require (ctx_requester (decryptionContexts s requestId) \<noteq> 0) ''Invalid context'' s),
       (\<lambda>s. let ctx = decryptionContexts s requestId in
          do_seq
            [ (\<lambda>s. require (exists (batches s (ctx_batchId ctx))) ''Batch not found'' s),
              (\<lambda>s. require (closed (batches s (ctx_batchId ctx))) ''Batch not closed'' s),
              (\<lambda>s. require (modelVersion (batches s (ctx_batchId ctx)) = ctx_modelVersion ctx)
                      ''Version mismatch'' s),
              (\<lambda>s. let acc = batchAccumulators s (ctx_batchId ctx) (ctx_modelVersion ctx) in
                 do_seq
                   [ requireInitialized env acc,
                     (\<lambda>s. let currentCts = [fhe_toBytes32 env acc];
                               currentStateHash = hashCiphertexts env currentCts in
                        require (currentStateHash = ctx_stateHash ctx) ''State hash mismatch'' s),
                     (\<lambda>s. if fhe_checkSignatures env requestId cleartexts proof' then skip s
                           else revert InvalidSignatures s),
                     (\<lambda>s. case abi_decode_uint32 cleartexts of
                             None \<Rightarrow> revert AbiDecodeRevert s
                           | Some totalScore \<Rightarrow>
                               do_seq
                                 [ sstore (\<lambda>s. s\<lparr>decryptionContexts :=
                                     (decryptionContexts s)(requestId :=
                                        (decryptionContexts s requestId)
                                          \<lparr>ctx_processed := True\<rparr>)\<rparr>),
                                   (\<lambda>s. emit (DecryptionCompleted requestId
                                           (ctx_batchId (decryptionContexts s requestId))
                                           totalScore) s) ] s) ] s) ] s) ]"

subsection \<open>Transactions\<close>

text \<open>
  A transaction is a caller (\<^verbatim>\<open>msg.sender\<close>), a block time (\<^verbatim>\<open>block.timestamp\<close>) and
  the external function called with its arguments. \<open>execute\<close> runs the function body;
  \<open>transact\<close> is the EVM's treatment of the outcome: a reverted call leaves the storage
  and the log as they were before it.
\<close>

datatype 'c call =
    TransferOwnership address
  | AddProvider address
  | RemoveProvider address
  | SetPaused bool
  | SetCooldownInterval uint256
  | SetBatchSizeLimit uint256
  | IncrementModelVersion
  | OpenBatch
  | CloseBatch uint256
  | SubmitCrop uint256 'c 'c 'c
  | RequestBatchDecryption uint256 uint256
  | OnBatchDecrypted uint256 bytes bytes

datatype 'c tx = Tx address uint256 "'c call"

fun execute :: "'c env \<Rightarrow> 'c tx \<Rightarrow> 'c stmt" where
  "execute env (Tx sender now (TransferOwnership newOwner)) = transferOwnership sender newOwner"
| "execute env (Tx sender now (AddProvider provider)) = addProvider sender provider"
| "execute env (Tx sender now (RemoveProvider provider)) = removeProvider sender provider"
| "execute env (Tx sender now (SetPaused p)) = setPaused sender p"
| "execute env (Tx sender now (SetCooldownInterval newInterval)) =
     setCooldownInterval sender newInterval"
| "execute env (Tx sender now (SetBatchSizeLimit newLimit)) = setBatchSizeLimit sender newLimit"
| "execute env (Tx sender now IncrementModelVersion) = incrementModelVersion sender"
| "execute env (Tx sender now OpenBatch) = openBatch env sender now"
| "execute env (Tx sender now (CloseBatch batchId)) = closeBatch sender now batchId"
| "execute env (Tx sender now (SubmitCrop batchId y r g)) =
     submitCrop env sender now batchId y r g"
| "execute env (Tx sender now (RequestBatchDecryption batchId requestId)) =
     requestBatchDecryption env sender now batchId requestId"
| "execute env (Tx sender now (OnBatchDecrypted requestId cleartexts proof')) =
     onBatchDecrypted env requestId cleartexts proof'"

definition transact :: "'c env \<Rightarrow> 'c state \<Rightarrow> 'c tx \<Rightarrow> 'c state" where
  "transact env s t = (case execute env t s of (Inl e, s') \<Rightarrow> s | (Inr u, s') \<Rightarrow> s')"

fun run :: "'c env \<Rightarrow> 'c state \<Rightarrow> 'c tx list \<Rightarrow> 'c state" where
  "run env s [] = s"
| "run env s (t # ts) = run env (transact env s t) ts"

subsection \<open>Traces\<close>

text \<open>The request identifiers the library handed out along a trace.\<close>

fun request_ids :: "'c tx list \<Rightarrow> uint256 list" where
  "request_ids [] = []"
| "request_ids (Tx sender now (RequestBatchDecryption batchId requestId) # ts) =
     requestId # request_ids ts"
| "request_ids (t # ts) = request_ids ts"

text \<open>How many \<^verbatim>\<open>DecryptionCompleted\<close> events a log holds for a request.\<close>

fun is_completion :: "uint256 \<Rightarrow> event \<Rightarrow> bool" where
  "is_completion requestId (DecryptionCompleted r b v) = (r = requestId)"
| "is_completion requestId ev = False"

definition completions :: "uint256 \<Rightarrow> event list \<Rightarrow> nat" where
  "completions requestId evs = length (filter (is_completion requestId) evs)"

text \<open>A trace along which no transaction lowers \<^verbatim>\<open>batchSizeLimit\<close>.\<close>

fun limit_not_lowered :: "'c env \<Rightarrow> 'c state \<Rightarrow> 'c tx list \<Rightarrow> bool" where
  "limit_not_lowered env s [] = True"
| "limit_not_lowered env s (t # ts) =
     (batchSizeLimit s \<le> batchSizeLimit (transact env s t) \<and>
      limit_not_lowered env (transact env s t) ts)"

text \<open>
  The contributions accepted into the key \<open>(batchId, version)\<close> along a trace, in the
  order of their acceptance: the arguments of every \<^verbatim>\<open>submitCrop\<close> for that batch that
  returned while \<^verbatim>\<open>currentModelVersion\<close> was that version.
\<close>

fun accepted_by :: "'c env \<Rightarrow> uint256 \<Rightarrow> uint256 \<Rightarrow> 'c state \<Rightarrow> 'c tx \<Rightarrow> ('c \<times> 'c \<times> 'c) list" where
  "accepted_by env batchId version s (Tx sender now (SubmitCrop b y r g)) =
     (if b = batchId \<and> currentModelVersion s = version \<and>
         fst (submitCrop env sender now b y r g s) = Inr ()
      then [(y, r, g)] else [])"
| "accepted_by env batchId version s t = []"

fun accepted :: "'c env \<Rightarrow> uint256 \<Rightarrow> uint256 \<Rightarrow> 'c state \<Rightarrow> 'c tx list \<Rightarrow> ('c \<times> 'c \<times> 'c) list" where
  "accepted env batchId version s [] = []"
| "accepted env batchId version s (t # ts) =
     accepted_by env batchId version s t @ accepted env batchId version (transact env s t) ts"

text \<open>
  The FHE scheme as the contract relies on it: \<open>dec\<close> is the cleartext a handle stands
  for. Addition of handles adds the cleartexts (32-bit, wrapping), the trivial
  encryption of 0 stands for 0, and so does a handle that is not initialised (which
  \<^verbatim>\<open>FHE.add\<close> and the contract both replace by an encrypted zero).
\<close>

definition homomorphic :: "'c env \<Rightarrow> ('c \<Rightarrow> uint32) \<Rightarrow> bool" where
  "homomorphic env dec \<longleftrightarrow>
     (\<forall>a b. dec (fhe_add env a b) = dec a + dec b) \<and>
     dec (fhe_asEuint32 env 0) = 0 \<and>
     (\<forall>c. \<not> fhe_isInitialized env c \<longrightarrow> dec c = 0) \<and>
     \<not> fhe_isInitialized env (fhe_zero env)"

text \<open>
  What one accepted \<^verbatim>\<open>submitCrop\<close> does to the accumulator of its key: the three fields
  are added up, and the sum is added to the accumulator (an encrypted zero when the
  accumulator is not initialised).
\<close>

definition accumulate :: "'c env \<Rightarrow> 'c \<Rightarrow> 'c \<times> 'c \<times> 'c \<Rightarrow> 'c" where
  "accumulate env acc c =
     (case c of (y, r, g) \<Rightarrow>
        fhe_add env (initIfNeeded env acc) (fhe_add env (fhe_add env y r) g))"

text \<open>
  Keccak as the binding hash relies on it: two different handles do not hash to the
  same value.
\<close>

definition collision_free :: "'c env \<Rightarrow> bool" where
  "collision_free env \<longleftrightarrow>
     (\<forall>h h'. hashCiphertexts env [h] = hashCiphertexts env [h'] \<longrightarrow> h = h')"

definition cleartext_of :: "('c \<Rightarrow> uint32) \<Rightarrow> 'c \<times> 'c \<times> 'c \<Rightarrow> uint32" where
  "cleartext_of dec c = (case c of (y, r, g) \<Rightarrow> dec y + dec r + dec g)"

subsection \<open>A concrete instance of the parameters\<close>

text \<open>
  An instance for running the model on concrete inputs: a ciphertext is its cleartext
  (\<open>None\<close> is the unset handle), a handle's 32 bytes are the cleartext plus one, the hash
  of a ciphertext list is its first element, the batch identifier is the block time, and
  a decryption proof is accepted when it is not empty.
\<close>

definition plain_env :: "uint32 option env" where
  "plain_env =
     \<lparr> this = 4096,
       keccak_batchId = (\<lambda>a v t. t),
       keccak_cts = (\<lambda>cts a. case cts of [] \<Rightarrow> 0 | c # _ \<Rightarrow> c),
       fhe_zero = None,
       fhe_add = (\<lambda>a b. Some ((case a of None \<Rightarrow> 0 | Some x \<Rightarrow> x) +
                              (case b of None \<Rightarrow> 0 | Some y \<Rightarrow> y))),
       fhe_asEuint32 = Some,
       fhe_isInitialized = (\<lambda>c. c \<noteq> None),
       fhe_toBytes32 = (\<lambda>c. case c of None \<Rightarrow> 0 | Some x \<Rightarrow> ucast x + 1),
       fhe_checkSignatures = (\<lambda>requestId cleartexts pf. pf \<noteq> []) \<rparr>"

definition plain_dec :: "uint32 option \<Rightarrow> uint32" where
  "plain_dec c = (case c of None \<Rightarrow> 0 | Some x \<Rightarrow> x)"

text \<open>
  A run of the contract: account 1 deploys it, opens batch 100 at time 100 and submits
  the scores 3 + 4 and 5 + 2; then it closes the batch.
\<close>

definition open_batch_trace :: "uint32 option tx list" where
  "open_batch_trace =
     [ Tx 1 100 OpenBatch,
       Tx 1 200 (SubmitCrop 100 (Some 3) (Some 4) None),
       Tx 1 300 (SubmitCrop 100 (Some 5) (Some 2) None) ]"

text \<open>The same run with the two submissions in the other order.\<close>

definition swapped_batch_trace :: "uint32 option tx list" where
  "swapped_batch_trace =
     [ Tx 1 100 OpenBatch,
       Tx 1 200 (SubmitCrop 100 (Some 5) (Some 2) None),
       Tx 1 300 (SubmitCrop 100 (Some 3) (Some 4) None) ]"

definition open_batch_state :: "uint32 option state" where
  "open_batch_state = run plain_env (constructor plain_env 1) open_batch_trace"

definition closed_batch_state :: "uint32 option state" where
  "closed_batch_state = transact plain_env open_batch_state (Tx 1 400 (CloseBatch 100))"

text \<open>Then account 1 requests the decryption of batch 100 and the library returns 7.\<close>

definition pending_request_state :: "uint32 option state" where
  "pending_request_state =
     transact plain_env closed_batch_state (Tx 1 500 (RequestBatchDecryption 100 7))"

text \<open>The 32 bytes that \<^verbatim>\<open>abi.encode(uint32(14))\<close> produces.\<close>

definition cleartext_14 :: bytes where
  "cleartext_14 = [0, 0, 0, 0, 0, 0, 0, 0, 0, 0, 0, 0, 0, 0, 0, 0,
                   0, 0, 0, 0, 0, 0, 0, 0, 0, 0, 0, 0, 0, 0, 0, 14]"

section \<open>What each function does\<close>

text \<open>
  Each external function, as one case distinction: the checks in the order the body
  makes them, each with the storage it leaves, and the storage after the last write.
  The later proofs work from these equations.
\<close>

lemmas stmt_defs = revert_def skip_def require_def sstore_def emit_def onlyOwner_def
  onlyProvider_def whenNotPaused_def checkCooldown_def requireInitialized_def

lemma checked_add_Some: "checked_add a b = Some t \<Longrightarrow> t = a + b"
  by (simp add: checked_add_def split: if_splits)

lemma checked_add_one: "a < (b::uint256) \<Longrightarrow> checked_add a 1 = Some (a + 1)"
proof -
  assume "a < b"
  then have "unat a < unat b" by (simp add: word_less_nat_alt)
  moreover have "unat b < 2 ^ 256" using unsigned_less [of b] by simp
  ultimately show ?thesis by (simp add: checked_add_def)
qed


lemma transferOwnership_eq:
  "transferOwnership sender newOwner s =
    (if sender \<noteq> owner s then (Inl NotOwner, s)
     else (Inr (), s\<lparr>owner := newOwner,
                      events := events s @ [OwnershipTransferred (owner s) newOwner]\<rparr>))"
  by (simp add: transferOwnership_def stmt_defs Let_def)

lemma addProvider_eq:
  "addProvider sender provider s =
    (if sender \<noteq> owner s then (Inl NotOwner, s)
     else if providers s provider then (Inr (), s)
     else (Inr (), s\<lparr>providers := (providers s)(provider := True),
                      events := events s @ [ProviderAdded provider]\<rparr>))"
  by (simp add: addProvider_def stmt_defs Let_def)

lemma removeProvider_eq:
  "removeProvider sender provider s =
    (if sender \<noteq> owner s then (Inl NotOwner, s)
     else if \<not> providers s provider then (Inr (), s)
     else (Inr (), s\<lparr>providers := (providers s)(provider := False),
                      events := events s @ [ProviderRemoved provider]\<rparr>))"
  by (simp add: removeProvider_def stmt_defs Let_def)

lemma setPaused_eq:
  "setPaused sender p s =
    (if sender \<noteq> owner s then (Inl NotOwner, s)
     else if p = paused s then (Inr (), s)
     else (Inr (), s\<lparr>paused := p,
                      events := events s @ [if p then Paused_event sender else Unpaused sender]\<rparr>))"
  by (simp add: setPaused_def stmt_defs Let_def)

lemma setCooldownInterval_eq:
  "setCooldownInterval sender newInterval s =
    (if sender \<noteq> owner s then (Inl NotOwner, s)
     else (Inr (), s\<lparr>cooldownInterval := newInterval,
                      events := events s @ [CooldownUpdated (cooldownInterval s) newInterval]\<rparr>))"
  by (simp add: setCooldownInterval_def stmt_defs Let_def)

lemma setBatchSizeLimit_eq:
  "setBatchSizeLimit sender newLimit s =
    (if sender \<noteq> owner s then (Inl NotOwner, s)
     else if \<not> newLimit > 0 then (Inl (Error ''Invalid limit''), s)
     else (Inr (), s\<lparr>batchSizeLimit := newLimit,
                      events := events s @ [BatchSizeLimitUpdated (batchSizeLimit s) newLimit]\<rparr>))"
  by (simp add: setBatchSizeLimit_def stmt_defs Let_def)

lemma incrementModelVersion_eq:
  "incrementModelVersion sender s =
    (if sender \<noteq> owner s then (Inl NotOwner, s)
     else if checked_add (currentModelVersion s) 1 = None then (Inl (Panic 17), s)
     else (Inr (), s\<lparr>currentModelVersion := currentModelVersion s + 1,
                      events := events s @
                        [ModelVersionUpdated (currentModelVersion s) (currentModelVersion s + 1)]\<rparr>))"
  by (auto simp add: incrementModelVersion_def stmt_defs Let_def dest: checked_add_Some
      split: option.splits)

lemma openBatch_eq:
  "openBatch env sender now s =
    (if \<not> providers s sender then (Inl NotProvider, s)
     else if paused s then (Inl Paused, s)
     else if checked_add (lastActionAt s sender) (cooldownInterval s) = None
       then (Inl (Panic 17), s)
     else if now < lastActionAt s sender + cooldownInterval s then (Inl TooFrequent, s)
     else if exists (batches s (keccak_batchId env (this env) (currentModelVersion s) now))
       then (Inl (Error ''Batch exists''), s)
     else (Inr (), s\<lparr>batches := (batches s)
                        (keccak_batchId env (this env) (currentModelVersion s) now :=
                           \<lparr>exists = True, closed = False, createdAt = now, closedAt = 0,
                            modelVersion = currentModelVersion s\<rparr>),
                      lastActionAt := (lastActionAt s)(sender := now),
                      events := events s @
                        [BatchOpened (keccak_batchId env (this env) (currentModelVersion s) now)
                           (currentModelVersion s)]\<rparr>))"
  by (auto simp add: openBatch_def stmt_defs Let_def dest: checked_add_Some
      split: option.splits)

lemma closeBatch_eq:
  "closeBatch sender now b s =
    (if \<not> providers s sender then (Inl NotProvider, s)
     else if paused s then (Inl Paused, s)
     else if \<not> exists (batches s b) then (Inl (Error ''Batch not found''), s)
     else if closed (batches s b) then (Inl (Error ''Batch closed''), s)
     else (Inr (), s\<lparr>batches := (batches s)(b := (batches s b)\<lparr>closed := True, closedAt := now\<rparr>),
                      events := events s @ [BatchClosed_event b]\<rparr>))"
  by (simp add: closeBatch_def stmt_defs Let_def)

lemma submitCrop_eq:
  "submitCrop env sender now b y r g s =
    (if \<not> providers s sender then (Inl NotProvider, s)
     else if paused s then (Inl Paused, s)
     else if checked_add (lastActionAt s sender) (cooldownInterval s) = None
       then (Inl (Panic 17), s)
     else if now < lastActionAt s sender + cooldownInterval s then (Inl TooFrequent, s)
     else if \<not> exists (batches s b) then (Inl (Error ''Batch not found''), s)
     else if closed (batches s b) then (Inl (Error ''Batch closed''), s)
     else if modelVersion (batches s b) \<noteq> currentModelVersion s
       then (Inl (Error ''Stale batch''), s)
     else if \<not> batchSizes s b (currentModelVersion s) < batchSizeLimit s
       then (Inl (Error ''Batch full''), s)
     else (Inr (), s\<lparr>batchAccumulators := (batchAccumulators s)(b := (batchAccumulators s b)
                        (currentModelVersion s :=
                           fhe_add env
                             (initIfNeeded env (batchAccumulators s b (currentModelVersion s)))
                             (fhe_add env (fhe_add env y r) g))),
                      batchSizes := (batchSizes s)(b := (batchSizes s b)
                        (currentModelVersion s := batchSizes s b (currentModelVersion s) + 1)),
                      batchVersions := (batchVersions s)(b := (batchVersions s b)
                        (currentModelVersion s := currentModelVersion s)),
                      lastActionAt := (lastActionAt s)(sender := now),
                      events := events s @ [CropSubmitted sender b (currentModelVersion s)]\<rparr>))"
  by (auto simp add: submitCrop_def stmt_defs Let_def checked_add_one initIfNeeded_def
      dest: checked_add_Some split: option.splits)

lemma requestBatchDecryption_eq:
  "requestBatchDecryption env sender now b rid s =
    (if paused s then (Inl Paused, s)
     else if checked_add (lastActionAt s sender) (cooldownInterval s) = None
       then (Inl (Panic 17), s)
     else if now < lastActionAt s sender + cooldownInterval s then (Inl TooFrequent, s)
     else if \<not> exists (batches s b) then (Inl (Error ''Batch not found''), s)
     else if \<not> closed (batches s b) then (Inl (Error ''Batch not closed''), s)
     else if modelVersion (batches s b) \<noteq> currentModelVersion s
       then (Inl (Error ''Stale batch''), s)
     else if \<not> fhe_isInitialized env (batchAccumulators s b (currentModelVersion s))
       then (Inl InvalidState, s)
     else (Inr (), s\<lparr>decryptionContexts := (decryptionContexts s)(rid :=
                        \<lparr>ctx_batchId = b, ctx_modelVersion = currentModelVersion s,
                         ctx_stateHash = hashCiphertexts env
                           [fhe_toBytes32 env (batchAccumulators s b (currentModelVersion s))],
                         ctx_processed = False, ctx_requester = sender\<rparr>),
                      lastActionAt := (lastActionAt s)(sender := now),
                      events := events s @ [DecryptionRequested rid b sender]\<rparr>))"
  by (auto simp add: requestBatchDecryption_def stmt_defs Let_def
      dest: checked_add_Some split: option.splits)

lemma onBatchDecrypted_eq:
  "onBatchDecrypted env rid cleartexts pf s =
    (let ctx = decryptionContexts s rid in
     if ctx_processed ctx then (Inl (Error ''Request processed''), s)
     else if ctx_requester ctx = 0 then (Inl (Error ''Invalid context''), s)
     else if \<not> exists (batches s (ctx_batchId ctx)) then (Inl (Error ''Batch not found''), s)
     else if \<not> closed (batches s (ctx_batchId ctx)) then (Inl (Error ''Batch not closed''), s)
     else if modelVersion (batches s (ctx_batchId ctx)) \<noteq> ctx_modelVersion ctx
       then (Inl (Error ''Version mismatch''), s)
     else if \<not> fhe_isInitialized env
                 (batchAccumulators s (ctx_batchId ctx) (ctx_modelVersion ctx))
       then (Inl InvalidState, s)
     else if hashCiphertexts env
               [fhe_toBytes32 env (batchAccumulators s (ctx_batchId ctx) (ctx_modelVersion ctx))]
             \<noteq> ctx_stateHash ctx
       then (Inl (Error ''State hash mismatch''), s)
     else if \<not> fhe_checkSignatures env rid cleartexts pf then (Inl InvalidSignatures, s)
     else case abi_decode_uint32 cleartexts of
            None \<Rightarrow> (Inl AbiDecodeRevert, s)
          | Some totalScore \<Rightarrow>
              (Inr (), s\<lparr>decryptionContexts := (decryptionContexts s)
                           (rid := ctx\<lparr>ctx_processed := True\<rparr>),
                         events := events s @
                           [DecryptionCompleted rid (ctx_batchId ctx) totalScore]\<rparr>))"
  by (simp add: onBatchDecrypted_def stmt_defs Let_def split: option.splits)

lemmas op_eqs = transferOwnership_eq addProvider_eq removeProvider_eq setPaused_eq
  setCooldownInterval_eq setBatchSizeLimit_eq incrementModelVersion_eq openBatch_eq
  closeBatch_eq submitCrop_eq requestBatchDecryption_eq onBatchDecrypted_eq

text \<open>The storage the constructor leaves.\<close>

lemma constructor_eq:
  "constructor env d = (zero_storage env)\<lparr>owner := d, providers := (\<lambda>_. False)(d := True),
      currentModelVersion := 1, events := [ProviderAdded d, ModelVersionUpdated 0 1]\<rparr>"
  by (simp add: constructor_def constructor_body_def stmt_defs zero_storage_def)



lemma open_batch_state_eq:
  "open_batch_state =
     \<lparr> owner = 1, paused = False, cooldownInterval = 10, batchSizeLimit = 5,
       currentModelVersion = 1, providers = (\<lambda>_. False)(1 := True),
       lastActionAt = (\<lambda>_. 0)(1 := 300),
       batches = (\<lambda>_. \<lparr>exists = False, closed = False, createdAt = 0, closedAt = 0,
                         modelVersion = 0\<rparr>)
         (100 := \<lparr>exists = True, closed = False, createdAt = 100, closedAt = 0,
                   modelVersion = 1\<rparr>),
       decryptionContexts = (\<lambda>_. \<lparr>ctx_batchId = 0, ctx_modelVersion = 0, ctx_stateHash = 0,
                                    ctx_processed = False, ctx_requester = 0\<rparr>),
       batchAccumulators = (\<lambda>_ _. None)(100 := (\<lambda>_. None)(1 := Some 14)),
       batchSizes = (\<lambda>_ _. 0)(100 := (\<lambda>_. 0)(1 := 2)),
       batchVersions = (\<lambda>_ _. 0)(100 := (\<lambda>_. 0)(1 := 1)),
       events = [ProviderAdded 1, ModelVersionUpdated 0 1, BatchOpened 100 1,
                 CropSubmitted 1 100 1, CropSubmitted 1 100 1] \<rparr>"
  by (simp add: open_batch_state_def open_batch_trace_def constructor_eq zero_storage_def
      transact_def op_eqs plain_env_def checked_add_def initIfNeeded_def)

lemma closed_batch_state_eq:
  "closed_batch_state =
     \<lparr> owner = 1, paused = False, cooldownInterval = 10, batchSizeLimit = 5,
       currentModelVersion = 1, providers = (\<lambda>_. False)(1 := True),
       lastActionAt = (\<lambda>_. 0)(1 := 300),
       batches = (\<lambda>_. \<lparr>exists = False, closed = False, createdAt = 0, closedAt = 0,
                         modelVersion = 0\<rparr>)
         (100 := \<lparr>exists = True, closed = True, createdAt = 100, closedAt = 400,
                   modelVersion = 1\<rparr>),
       decryptionContexts = (\<lambda>_. \<lparr>ctx_batchId = 0, ctx_modelVersion = 0, ctx_stateHash = 0,
                                    ctx_processed = False, ctx_requester = 0\<rparr>),
       batchAccumulators = (\<lambda>_ _. None)(100 := (\<lambda>_. None)(1 := Some 14)),
       batchSizes = (\<lambda>_ _. 0)(100 := (\<lambda>_. 0)(1 := 2)),
       batchVersions = (\<lambda>_ _. 0)(100 := (\<lambda>_. 0)(1 := 1)),
       events = [ProviderAdded 1, ModelVersionUpdated 0 1, BatchOpened 100 1,
                 CropSubmitted 1 100 1, CropSubmitted 1 100 1, BatchClosed_event 100] \<rparr>"
  by (simp add: closed_batch_state_def open_batch_state_eq transact_def closeBatch_eq)

lemma pending_request_state_eq:
  "pending_request_state =
     \<lparr> owner = 1, paused = False, cooldownInterval = 10, batchSizeLimit = 5,
       currentModelVersion = 1, providers = (\<lambda>_. False)(1 := True),
       lastActionAt = (\<lambda>_. 0)(1 := 500),
       batches = (\<lambda>_. \<lparr>exists = False, closed = False, createdAt = 0, closedAt = 0,
                         modelVersion = 0\<rparr>)
         (100 := \<lparr>exists = True, closed = True, createdAt = 100, closedAt = 400,
                   modelVersion = 1\<rparr>),
       decryptionContexts = (\<lambda>_. \<lparr>ctx_batchId = 0, ctx_modelVersion = 0, ctx_stateHash = 0,
                                    ctx_processed = False, ctx_requester = 0\<rparr>)
         (7 := \<lparr>ctx_batchId = 100, ctx_modelVersion = 1, ctx_stateHash = 15,
                 ctx_processed = False, ctx_requester = 1\<rparr>),
       batchAccumulators = (\<lambda>_ _. None)(100 := (\<lambda>_. None)(1 := Some 14)),
       batchSizes = (\<lambda>_ _. 0)(100 := (\<lambda>_. 0)(1 := 2)),
       batchVersions = (\<lambda>_ _. 0)(100 := (\<lambda>_. 0)(1 := 1)),
       events = [ProviderAdded 1, ModelVersionUpdated 0 1, BatchOpened 100 1,
                 CropSubmitted 1 100 1, CropSubmitted 1 100 1, BatchClosed_event 100,
                 DecryptionRequested 7 100 1] \<rparr>"
  by (simp add: pending_request_state_def closed_batch_state_eq transact_def
      requestBatchDecryption_eq checked_add_def plain_env_def hashCiphertexts_def)

section \<open>Properties\<close>

subsection \<open>Failure is atomic\<close>

text \<open>
  Claim C8. Every external function validates before it writes: whenever a call of any
  of the twelve functions reverts, for whatever reason, the storage and the event log at
  the point of the revert are exactly those before the call (nothing was written before
  the failing check), and so is the state the transaction leaves.
\<close>

theorem failed_call_changes_nothing:
  assumes "execute env t s = (Inl e, s')"
  shows "s' = s \<and> transact env s t = s"
proof (cases t)
  case (Tx sender now c)
  have "s' = s"
    using assms unfolding Tx
    by (cases c) (auto simp add: op_eqs Let_def split: if_splits option.splits)
  then show ?thesis using assms by (simp add: transact_def)
qed

theorem failed_call_changes_nothing_witness:
  "execute plain_env (Tx 1 405 (SubmitCrop 100 (Some 1) (Some 1) (Some 1))) closed_batch_state
     = (Inl (Error ''Batch closed''), closed_batch_state) \<and>
   transact plain_env closed_batch_state (Tx 1 405 (SubmitCrop 100 (Some 1) (Some 1) (Some 1)))
     = closed_batch_state"
proof -
  have h: "execute plain_env (Tx 1 405 (SubmitCrop 100 (Some 1) (Some 1) (Some 1)))
             closed_batch_state = (Inl (Error ''Batch closed''), closed_batch_state)"
    by (simp add: submitCrop_eq closed_batch_state_eq checked_add_def)
  show ?thesis using h failed_call_changes_nothing [OF h] by simp
qed

subsection \<open>Construction\<close>

text \<open>
  Claim C9. The constructor makes the deployer the owner and a provider, sets the model
  version to 1 (not 0), and emits \<^verbatim>\<open>ProviderAdded(deployer)\<close> and
  \<^verbatim>\<open>ModelVersionUpdated(0, 1)\<close>, in this order and nothing else.
\<close>

theorem constructor_initial_state:
  "owner (constructor env deployer) = deployer \<and>
   providers (constructor env deployer) deployer \<and>
   currentModelVersion (constructor env deployer) = 1 \<and>
   currentModelVersion (constructor env deployer) \<noteq> 0 \<and>
   events (constructor env deployer) = [ProviderAdded deployer, ModelVersionUpdated 0 1]"
  by (simp add: constructor_eq zero_storage_def)

subsection \<open>The cooldown interval has no lower bound\<close>




subsection \<open>A version bump and decryption requests\<close>

text \<open>
  Claim C1, as the code has it. \<^verbatim>\<open>requestBatchDecryption\<close> requires the batch's stamped
  version to equal the current model version. So after \<^verbatim>\<open>incrementModelVersion\<close> a
  request against a batch stamped with the version before the bump fails and changes
  nothing; for a closed batch that exists the failure is "Stale batch" as soon as the
  pause and cooldown checks pass.
\<close>

theorem stale_batch_blocks_decryption_request:
  assumes "incrementModelVersion admin s = (Inr (), s')"
      and "modelVersion (batches s batchId) = currentModelVersion s"
  shows "(\<exists>e. requestBatchDecryption env sender now batchId requestId s' = (Inl e, s')) \<and>
         (\<not> paused s' \<and>
          checked_add (lastActionAt s' sender) (cooldownInterval s') \<noteq> None \<and>
          \<not> now < lastActionAt s' sender + cooldownInterval s' \<and>
          exists (batches s' batchId) \<and> closed (batches s' batchId) \<longrightarrow>
            requestBatchDecryption env sender now batchId requestId s' =
              (Inl (Error ''Stale batch''), s'))"
proof -
  from assms(1) have s': "s' = s\<lparr>currentModelVersion := currentModelVersion s + 1,
      events := events s @
        [ModelVersionUpdated (currentModelVersion s) (currentModelVersion s + 1)]\<rparr>"
    by (simp add: incrementModelVersion_eq split: if_splits)
  have stale: "modelVersion (batches s' batchId) \<noteq> currentModelVersion s'"
    using assms(2) by (simp add: s')
  show ?thesis
    using stale by (simp add: requestBatchDecryption_eq)
qed

theorem stale_batch_blocks_decryption_request_witness:
  "incrementModelVersion 1 closed_batch_state =
     (Inr (), snd (incrementModelVersion 1 closed_batch_state)) \<and>
   modelVersion (batches closed_batch_state 100) = currentModelVersion closed_batch_state \<and>
   requestBatchDecryption plain_env 1 500 100 7 (snd (incrementModelVersion 1 closed_batch_state))
     = (Inl (Error ''Stale batch''), snd (incrementModelVersion 1 closed_batch_state))"
proof -
  have h1: "incrementModelVersion 1 closed_batch_state =
     (Inr (), snd (incrementModelVersion 1 closed_batch_state))"
    by (simp add: incrementModelVersion_eq closed_batch_state_eq checked_add_def)
  have h2: "modelVersion (batches closed_batch_state 100) = currentModelVersion closed_batch_state"
    by (simp add: closed_batch_state_eq)
  show ?thesis
    using h1 h2 stale_batch_blocks_decryption_request [OF h1 h2, of plain_env 1 500 7]
    by (simp add: incrementModelVersion_eq closed_batch_state_eq checked_add_def)
qed

text \<open>
  Claim C1 as stated fails: batch 100 exists, is closed and has an initialised
  accumulator under its stamped version; a decryption request succeeds before the
  version bump and fails with "Stale batch" after it.
\<close>

theorem version_bump_breaks_decryption_request:
  "exists (batches closed_batch_state 100) \<and>
   closed (batches closed_batch_state 100) \<and>
   fhe_isInitialized plain_env
     (batchAccumulators closed_batch_state 100 (modelVersion (batches closed_batch_state 100))) \<and>
   fst (requestBatchDecryption plain_env 1 500 100 7 closed_batch_state) = Inr () \<and>
   fst (incrementModelVersion 1 closed_batch_state) = Inr () \<and>
   fst (requestBatchDecryption plain_env 1 500 100 7
          (snd (incrementModelVersion 1 closed_batch_state))) = Inl (Error ''Stale batch'')"
  by (simp add: requestBatchDecryption_eq incrementModelVersion_eq closed_batch_state_eq
      checked_add_def plain_env_def)

subsection \<open>The pause\<close>

text \<open>
  Claim C2, as the code has it. The four functions that carry \<^verbatim>\<open>whenNotPaused\<close>
  (\<^verbatim>\<open>openBatch\<close>, \<^verbatim>\<open>closeBatch\<close>, \<^verbatim>\<open>submitCrop\<close>, \<^verbatim>\<open>requestBatchDecryption\<close>) fail while
  the contract is paused and change nothing. \<^verbatim>\<open>onlyProvider\<close> is checked first, so the
  error is \<^verbatim>\<open>Paused\<close> for a provider and \<^verbatim>\<open>NotProvider\<close> for anyone else;
  \<^verbatim>\<open>requestBatchDecryption\<close> has no provider check and always fails with \<^verbatim>\<open>Paused\<close>.
\<close>

theorem paused_blocks_gated_calls:
  assumes "paused s"
  shows "openBatch env sender now s =
           (Inl (if providers s sender then Paused else NotProvider), s) \<and>
         closeBatch sender now batchId s =
           (Inl (if providers s sender then Paused else NotProvider), s) \<and>
         submitCrop env sender now batchId y r g s =
           (Inl (if providers s sender then Paused else NotProvider), s) \<and>
         requestBatchDecryption env sender now batchId requestId s = (Inl Paused, s)"
  using assms
  by (simp add: openBatch_eq closeBatch_eq submitCrop_eq requestBatchDecryption_eq)

theorem paused_blocks_gated_calls_witness:
  "paused (transact plain_env closed_batch_state (Tx 1 500 (SetPaused True))) \<and>
   openBatch plain_env 1 600 (transact plain_env closed_batch_state (Tx 1 500 (SetPaused True)))
     = (Inl Paused, transact plain_env closed_batch_state (Tx 1 500 (SetPaused True))) \<and>
   closeBatch 2 600 100 (transact plain_env closed_batch_state (Tx 1 500 (SetPaused True)))
     = (Inl NotProvider, transact plain_env closed_batch_state (Tx 1 500 (SetPaused True))) \<and>
   requestBatchDecryption plain_env 2 600 100 7
       (transact plain_env closed_batch_state (Tx 1 500 (SetPaused True)))
     = (Inl Paused, transact plain_env closed_batch_state (Tx 1 500 (SetPaused True)))"
proof -
  have h: "paused (transact plain_env closed_batch_state (Tx 1 500 (SetPaused True)))"
    by (simp add: transact_def setPaused_eq closed_batch_state_eq)
  have p: "providers (transact plain_env closed_batch_state (Tx 1 500 (SetPaused True))) 1"
          "\<not> providers (transact plain_env closed_batch_state (Tx 1 500 (SetPaused True))) 2"
    by (simp_all add: transact_def setPaused_eq closed_batch_state_eq)
  show ?thesis
    using h p paused_blocks_gated_calls [OF h, of plain_env 1 600 100 None None None 7]
      paused_blocks_gated_calls [OF h, of plain_env 2 600 100 None None None 7]
    by simp
qed

text \<open>
  Claim C2 as stated fails on the callback: \<^verbatim>\<open>onBatchDecrypted\<close> carries no
  \<^verbatim>\<open>whenNotPaused\<close>. With a request pending and the contract paused, the callback
  returns and marks the context processed.
\<close>

theorem callback_runs_while_paused:
  "paused (run plain_env closed_batch_state
             [Tx 1 500 (RequestBatchDecryption 100 7), Tx 1 600 (SetPaused True)]) \<and>
   \<not> ctx_processed (decryptionContexts (run plain_env closed_batch_state
             [Tx 1 500 (RequestBatchDecryption 100 7), Tx 1 600 (SetPaused True)]) 7) \<and>
   fst (onBatchDecrypted plain_env 7 cleartext_14 [1]
         (run plain_env closed_batch_state
             [Tx 1 500 (RequestBatchDecryption 100 7), Tx 1 600 (SetPaused True)])) = Inr () \<and>
   ctx_processed (decryptionContexts (snd (onBatchDecrypted plain_env 7 cleartext_14 [1]
         (run plain_env closed_batch_state
             [Tx 1 500 (RequestBatchDecryption 100 7), Tx 1 600 (SetPaused True)]))) 7)"
  by (simp add: transact_def requestBatchDecryption_eq setPaused_eq onBatchDecrypted_eq
      closed_batch_state_eq checked_add_def plain_env_def hashCiphertexts_def
      abi_decode_uint32_def be_nat_def cleartext_14_def Let_def)

subsection \<open>Capacity\<close>

text \<open>Steps of a trace: what a transaction does to the count and to the limit.\<close>

lemma transact_batchSizeLimit_submit:
  "accepted_by env b v s t \<noteq> [] \<Longrightarrow> batchSizeLimit (transact env s t) = batchSizeLimit s"
proof (cases t)
  case (Tx sender now c)
  assume "accepted_by env b v s t \<noteq> []"
  then show ?thesis unfolding Tx
    by (cases c) (auto simp add: transact_def submitCrop_eq split: if_splits)
qed

lemma transact_batchSizes:
  "batchSizes (transact env s t) b v =
     (if accepted_by env b v s t \<noteq> [] then batchSizes s b v + 1 else batchSizes s b v)"
proof (cases t)
  case (Tx sender now c)
  show ?thesis unfolding Tx
    by (cases c) (auto simp add: transact_def op_eqs Let_def split: option.splits)
qed

lemma accepted_by_below_limit:
  "accepted_by env b v s t \<noteq> [] \<Longrightarrow> batchSizes s b v < batchSizeLimit s"
proof (cases t)
  case (Tx sender now c)
  assume "accepted_by env b v s t \<noteq> []"
  then show ?thesis unfolding Tx
    by (cases c) (auto simp add: submitCrop_eq split: if_splits)
qed

lemma transact_keeps_capacity:
  assumes "batchSizes s b v \<le> batchSizeLimit s"
      and "batchSizeLimit s \<le> batchSizeLimit (transact env s t)"
  shows "batchSizes (transact env s t) b v \<le> batchSizeLimit (transact env s t)"
proof (cases "accepted_by env b v s t \<noteq> []")
  case True
  then have "batchSizes s b v < batchSizeLimit s" by (rule accepted_by_below_limit)
  then have "batchSizes s b v + 1 \<le> batchSizeLimit s" by (rule inc_le)
  then show ?thesis using True
    by (simp add: transact_batchSizes transact_batchSizeLimit_submit [OF True])
next
  case False
  then show ?thesis using assms by (simp add: transact_batchSizes)
qed

lemma run_keeps_capacity:
  "batchSizes s b v \<le> batchSizeLimit s \<Longrightarrow> limit_not_lowered env s ts \<Longrightarrow>
   batchSizes (run env s ts) b v \<le> batchSizeLimit (run env s ts)"
proof (induction ts arbitrary: s)
  case Nil
  then show ?case by simp
next
  case (Cons t ts)
  from Cons.prems have "batchSizes (transact env s t) b v \<le> batchSizeLimit (transact env s t)"
    by (simp add: transact_keeps_capacity)
  with Cons.prems show ?case by (simp add: Cons.IH)
qed

text \<open>
  Claim C5, as the code has it. In every state reached from the constructor along a
  trace that never lowers \<^verbatim>\<open>batchSizeLimit\<close>, the count of every key is at most the
  limit. A \<^verbatim>\<open>submitCrop\<close> made when the count of its key has reached the limit fails and
  changes nothing (neither count nor accumulator), with "Batch full" when all earlier
  checks pass. A \<^verbatim>\<open>submitCrop\<close> that returns has raised the count by one, to at most the
  limit.
\<close>

theorem capacity_respected_unless_limit_lowered:
  "(limit_not_lowered env (constructor env deployer) ts \<longrightarrow>
      batchSizes (run env (constructor env deployer) ts) batchId version
        \<le> batchSizeLimit (run env (constructor env deployer) ts)) \<and>
   (batchSizeLimit s \<le> batchSizes s batchId (currentModelVersion s) \<longrightarrow>
      (\<exists>e. submitCrop env sender now batchId y r g s = (Inl e, s)) \<and>
      (providers s sender \<and> \<not> paused s \<and>
       checked_add (lastActionAt s sender) (cooldownInterval s) \<noteq> None \<and>
       \<not> now < lastActionAt s sender + cooldownInterval s \<and>
       exists (batches s batchId) \<and> \<not> closed (batches s batchId) \<and>
       modelVersion (batches s batchId) = currentModelVersion s \<longrightarrow>
         submitCrop env sender now batchId y r g s = (Inl (Error ''Batch full''), s))) \<and>
   (submitCrop env sender now batchId y r g s = (Inr (), s') \<longrightarrow>
      batchSizes s' batchId (currentModelVersion s)
        = batchSizes s batchId (currentModelVersion s) + 1 \<and>
      batchSizes s' batchId (currentModelVersion s) \<le> batchSizeLimit s')"
proof -
  have "batchSizes (constructor env deployer) batchId version
          \<le> batchSizeLimit (constructor env deployer)"
    by (simp add: constructor_eq zero_storage_def)
  then have inv: "limit_not_lowered env (constructor env deployer) ts \<longrightarrow>
      batchSizes (run env (constructor env deployer) ts) batchId version
        \<le> batchSizeLimit (run env (constructor env deployer) ts)"
    by (simp add: run_keeps_capacity)
  have full: "batchSizeLimit s \<le> batchSizes s batchId (currentModelVersion s) \<longrightarrow>
      (\<exists>e. submitCrop env sender now batchId y r g s = (Inl e, s)) \<and>
      (providers s sender \<and> \<not> paused s \<and>
       checked_add (lastActionAt s sender) (cooldownInterval s) \<noteq> None \<and>
       \<not> now < lastActionAt s sender + cooldownInterval s \<and>
       exists (batches s batchId) \<and> \<not> closed (batches s batchId) \<and>
       modelVersion (batches s batchId) = currentModelVersion s \<longrightarrow>
         submitCrop env sender now batchId y r g s = (Inl (Error ''Batch full''), s))"
  proof
    assume "batchSizeLimit s \<le> batchSizes s batchId (currentModelVersion s)"
    then have "\<not> batchSizes s batchId (currentModelVersion s) < batchSizeLimit s"
      by (rule leD)
    then show "(\<exists>e. submitCrop env sender now batchId y r g s = (Inl e, s)) \<and>
      (providers s sender \<and> \<not> paused s \<and>
       checked_add (lastActionAt s sender) (cooldownInterval s) \<noteq> None \<and>
       \<not> now < lastActionAt s sender + cooldownInterval s \<and>
       exists (batches s batchId) \<and> \<not> closed (batches s batchId) \<and>
       modelVersion (batches s batchId) = currentModelVersion s \<longrightarrow>
         submitCrop env sender now batchId y r g s = (Inl (Error ''Batch full''), s))"
      by (simp add: submitCrop_eq)
  qed
  have ok: "submitCrop env sender now batchId y r g s = (Inr (), s') \<longrightarrow>
      batchSizes s' batchId (currentModelVersion s)
        = batchSizes s batchId (currentModelVersion s) + 1 \<and>
      batchSizes s' batchId (currentModelVersion s) \<le> batchSizeLimit s'"
    by (auto simp add: submitCrop_eq inc_le split: if_splits)
  from inv full ok show ?thesis by blast
qed

theorem capacity_respected_unless_limit_lowered_witness:
  "limit_not_lowered plain_env (constructor plain_env 1) open_batch_trace \<and>
   batchSizes open_batch_state 100 1 \<le> batchSizeLimit open_batch_state \<and>
   batchSizeLimit (transact plain_env open_batch_state (Tx 1 400 (SetBatchSizeLimit 2)))
     \<le> batchSizes (transact plain_env open_batch_state (Tx 1 400 (SetBatchSizeLimit 2))) 100 1 \<and>
   submitCrop plain_env 1 500 100 (Some 1) (Some 1) (Some 1)
       (transact plain_env open_batch_state (Tx 1 400 (SetBatchSizeLimit 2)))
     = (Inl (Error ''Batch full''),
        transact plain_env open_batch_state (Tx 1 400 (SetBatchSizeLimit 2))) \<and>
   fst (submitCrop plain_env 1 500 100 (Some 1) (Some 1) (Some 1) open_batch_state) = Inr () \<and>
   batchSizes (snd (submitCrop plain_env 1 500 100 (Some 1) (Some 1) (Some 1) open_batch_state))
       100 1 = 3"
proof -
  have h1: "limit_not_lowered plain_env (constructor plain_env 1) open_batch_trace"
    by (simp add: open_batch_trace_def constructor_eq zero_storage_def
        transact_def op_eqs plain_env_def checked_add_def initIfNeeded_def)
  have h2: "submitCrop plain_env 1 500 100 (Some 1) (Some 1) (Some 1) open_batch_state
      = (Inr (), snd (submitCrop plain_env 1 500 100 (Some 1) (Some 1) (Some 1) open_batch_state))"
    by (simp add: submitCrop_eq open_batch_state_eq checked_add_def)
  show ?thesis
    using h1 h2
      capacity_respected_unless_limit_lowered [where env = plain_env and deployer = 1
        and ts = open_batch_trace and batchId = 100 and version = 1
        and s = "transact plain_env open_batch_state (Tx 1 400 (SetBatchSizeLimit 2))"
        and sender = 1 and now = 500 and y = "Some 1" and r = "Some 1" and g = "Some 1"]
      capacity_respected_unless_limit_lowered [where env = plain_env and deployer = 1
        and ts = open_batch_trace and batchId = 100 and version = 1
        and s = open_batch_state
        and s' = "snd (submitCrop plain_env 1 500 100 (Some 1) (Some 1) (Some 1) open_batch_state)"
        and sender = 1 and now = 500 and y = "Some 1" and r = "Some 1" and g = "Some 1"]
    by (simp add: open_batch_state_def [symmetric] transact_def setBatchSizeLimit_eq
        submitCrop_eq open_batch_state_eq checked_add_def)
qed

text \<open>
  Claim C5 as stated fails: \<^verbatim>\<open>setBatchSizeLimit\<close> only requires the new limit to be
  positive. After two accepted submissions the owner sets the limit to 1, and the
  stored count 2 exceeds it.
\<close>

theorem lowering_limit_leaves_count_above:
  "batchSizeLimit (run plain_env (constructor plain_env 1)
       (open_batch_trace @ [Tx 1 400 (SetBatchSizeLimit 1)]))
     < batchSizes (run plain_env (constructor plain_env 1)
       (open_batch_trace @ [Tx 1 400 (SetBatchSizeLimit 1)])) 100 1"
  by (simp add: open_batch_trace_def constructor_eq zero_storage_def
      transact_def op_eqs plain_env_def checked_add_def initIfNeeded_def)

subsection \<open>Closing\<close>

text \<open>A batch that exists and is closed stays so, whatever is called.\<close>

lemma transact_keeps_closed:
  assumes "exists (batches s b)" "closed (batches s b)"
  shows "exists (batches (transact env s t) b) \<and> closed (batches (transact env s t) b)"
proof (cases t)
  case (Tx sender now c)
  show ?thesis
    using assms unfolding Tx
    by (cases c) (auto simp add: transact_def op_eqs Let_def split: option.splits)
qed

lemma run_keeps_closed:
  "exists (batches s b) \<Longrightarrow> closed (batches s b) \<Longrightarrow>
   exists (batches (run env s ts) b) \<and> closed (batches (run env s ts) b)"
proof (induction ts arbitrary: s)
  case Nil
  then show ?case by simp
next
  case (Cons t ts)
  from transact_keeps_closed [OF Cons.prems, of env t]
  show ?case by (simp add: Cons.IH)
qed

text \<open>
  Claim C6. Once \<^verbatim>\<open>closeBatch\<close> has succeeded for a batch, after any further
  transactions the batch is still closed and every \<^verbatim>\<open>submitCrop\<close> for it fails and
  changes nothing. For every call that reaches the body of \<^verbatim>\<open>submitCrop\<close> (the caller is
  a provider, the contract is not paused and the cooldown has elapsed, which the
  modifiers check first) the failure is "Batch closed", whatever the batch's version and
  the current one: the closed check comes before the version check.
\<close>

theorem closing_is_terminal:
  assumes "closeBatch closer now0 batchId s0 = (Inr (), s1)"
  shows "closed (batches (run env s1 ts) batchId) \<and>
         (\<exists>e. submitCrop env sender now batchId y r g (run env s1 ts) =
                (Inl e, run env s1 ts)) \<and>
         (providers (run env s1 ts) sender \<and> \<not> paused (run env s1 ts) \<and>
          checked_add (lastActionAt (run env s1 ts) sender) (cooldownInterval (run env s1 ts))
            \<noteq> None \<and>
          \<not> now < lastActionAt (run env s1 ts) sender + cooldownInterval (run env s1 ts) \<longrightarrow>
            submitCrop env sender now batchId y r g (run env s1 ts) =
              (Inl (Error ''Batch closed''), run env s1 ts))"
proof -
  from assms have "exists (batches s1 batchId) \<and> closed (batches s1 batchId)"
    by (auto simp add: closeBatch_eq split: if_splits)
  then have "exists (batches (run env s1 ts) batchId) \<and> closed (batches (run env s1 ts) batchId)"
    by (simp add: run_keeps_closed)
  then show ?thesis
    by (simp add: submitCrop_eq)
qed

theorem closing_is_terminal_witness:
  "closeBatch 1 400 100 open_batch_state = (Inr (), closed_batch_state) \<and>
   closed (batches (run plain_env closed_batch_state [Tx 1 500 IncrementModelVersion]) 100) \<and>
   modelVersion (batches (run plain_env closed_batch_state [Tx 1 500 IncrementModelVersion]) 100)
     \<noteq> currentModelVersion (run plain_env closed_batch_state [Tx 1 500 IncrementModelVersion]) \<and>
   submitCrop plain_env 1 600 100 (Some 1) (Some 1) (Some 1)
       (run plain_env closed_batch_state [Tx 1 500 IncrementModelVersion])
     = (Inl (Error ''Batch closed''),
        run plain_env closed_batch_state [Tx 1 500 IncrementModelVersion])"
proof -
  have h: "closeBatch 1 400 100 open_batch_state = (Inr (), closed_batch_state)"
    by (simp add: closed_batch_state_def transact_def closeBatch_eq open_batch_state_eq)
  show ?thesis
    using h closing_is_terminal [OF h, of plain_env "[Tx 1 500 IncrementModelVersion]"
        1 600 "Some 1" "Some 1" "Some 1"]
    by (simp add: transact_def incrementModelVersion_eq closed_batch_state_eq checked_add_def)
qed

subsection \<open>The callback is accepted once\<close>

text \<open>
  A processed context stays processed, and no further completion event is logged for
  it, as long as the library does not hand out its identifier again.
\<close>

lemma completions_append:
  "completions rid (evs @ [ev]) = completions rid evs + (if is_completion rid ev then 1 else 0)"
  by (simp add: completions_def)

lemma transact_keeps_processed:
  assumes "ctx_processed (decryptionContexts s rid)" "rid \<notin> set (request_ids [t])"
  shows "ctx_processed (decryptionContexts (transact env s t) rid) \<and>
         completions rid (events (transact env s t)) = completions rid (events s)"
proof (cases t)
  case (Tx sender now c)
  show ?thesis
    using assms unfolding Tx
    by (cases c)
       (auto simp add: transact_def op_eqs Let_def completions_append split: option.splits)
qed

lemma request_ids_Cons:
  "rid \<notin> set (request_ids (t # ts)) \<longleftrightarrow>
     rid \<notin> set (request_ids [t]) \<and> rid \<notin> set (request_ids ts)"
proof (cases t)
  case (Tx sender now c)
  show ?thesis unfolding Tx by (cases c) auto
qed

lemma run_keeps_processed:
  "ctx_processed (decryptionContexts s rid) \<Longrightarrow> rid \<notin> set (request_ids ts) \<Longrightarrow>
   ctx_processed (decryptionContexts (run env s ts) rid) \<and>
   completions rid (events (run env s ts)) = completions rid (events s)"
proof (induction ts arbitrary: s)
  case Nil
  then show ?case by simp
next
  case (Cons t ts)
  from Cons.prems(2) have t: "rid \<notin> set (request_ids [t])" and ts: "rid \<notin> set (request_ids ts)"
    by (simp_all add: request_ids_Cons [of rid t ts])
  from transact_keeps_processed [OF Cons.prems(1) t, of env]
  have step: "ctx_processed (decryptionContexts (transact env s t) rid)"
    and ev: "completions rid (events (transact env s t)) = completions rid (events s)"
    by simp_all
  from Cons.IH [OF step ts] ev show ?case by simp
qed

text \<open>
  Claim C3. After one successful \<^verbatim>\<open>onBatchDecrypted\<close> for a request identifier, and
  after any further transactions (the library handing out fresh identifiers, so none of
  them a request that returns this one), every callback with the same identifier fails
  with "Request processed" and changes nothing, and the log holds exactly one more
  \<^verbatim>\<open>DecryptionCompleted\<close> for the identifier than before the successful callback.
\<close>

theorem callback_succeeds_at_most_once:
  assumes "onBatchDecrypted env requestId cleartexts pf s = (Inr (), s1)"
      and "requestId \<notin> set (request_ids ts)"
  shows "onBatchDecrypted env requestId cleartexts' pf' (run env s1 ts) =
           (Inl (Error ''Request processed''), run env s1 ts) \<and>
         completions requestId (events (run env s1 ts)) = completions requestId (events s) + 1"
proof -
  from assms(1) have p: "ctx_processed (decryptionContexts s1 requestId)"
    and c: "completions requestId (events s1) = completions requestId (events s) + 1"
    by (auto simp add: onBatchDecrypted_eq Let_def completions_append
        split: if_splits option.splits)
  from run_keeps_processed [OF p assms(2), of env] c show ?thesis
    by (simp add: onBatchDecrypted_eq)
qed

theorem callback_succeeds_at_most_once_witness:
  "fst (onBatchDecrypted plain_env 7 cleartext_14 [1] pending_request_state) = Inr () \<and>
   7 \<notin> set (request_ids [Tx 2 600 (OnBatchDecrypted 7 cleartext_14 [1]),
                           Tx 1 700 (RequestBatchDecryption 100 8)
                             :: uint32 option tx]) \<and>
   fst (onBatchDecrypted plain_env 7 cleartext_14 [1]
     (run plain_env (snd (onBatchDecrypted plain_env 7 cleartext_14 [1] pending_request_state))
        [Tx 2 600 (OnBatchDecrypted 7 cleartext_14 [1]),
         Tx 1 700 (RequestBatchDecryption 100 8)])) = Inl (Error ''Request processed'') \<and>
   completions 7 (events
     (run plain_env (snd (onBatchDecrypted plain_env 7 cleartext_14 [1] pending_request_state))
        [Tx 2 600 (OnBatchDecrypted 7 cleartext_14 [1]),
         Tx 1 700 (RequestBatchDecryption 100 8)])) = 1"
proof -
  have h1: "onBatchDecrypted plain_env 7 cleartext_14 [1] pending_request_state =
      (Inr (), snd (onBatchDecrypted plain_env 7 cleartext_14 [1] pending_request_state))"
    by (simp add: onBatchDecrypted_eq pending_request_state_eq plain_env_def hashCiphertexts_def
        abi_decode_uint32_def be_nat_def cleartext_14_def Let_def)
  have h2: "7 \<notin> set (request_ids [Tx 2 600 (OnBatchDecrypted 7 cleartext_14 [1]),
                           Tx 1 700 (RequestBatchDecryption 100 8) :: uint32 option tx])"
    by simp
  have c0: "completions 7 (events pending_request_state) = 0"
    by (simp add: pending_request_state_eq completions_def)
  have f: "fst (onBatchDecrypted plain_env 7 cleartext_14 [1] pending_request_state) = Inr ()"
    by (subst h1) simp
  show ?thesis
    using f h2 c0 callback_succeeds_at_most_once [OF h1 h2, of cleartext_14 "[1]"]
    by simp
qed

subsection \<open>The accumulator is the sum of the accepted contributions\<close>

text \<open>
  The handle stored under a key after a trace is the handle before it, folded with
  \<open>accumulate\<close> over the contributions accepted into the key, in their order.
\<close>

lemma transact_accumulator:
  "batchAccumulators (transact env s t) b v =
     foldl (accumulate env) (batchAccumulators s b v) (accepted_by env b v s t)"
proof (cases t)
  case (Tx sender now c)
  show ?thesis unfolding Tx
    by (cases c)
       (auto simp add: transact_def op_eqs Let_def accumulate_def split: option.splits)
qed

lemma run_accumulator:
  "batchAccumulators (run env s ts) b v =
     foldl (accumulate env) (batchAccumulators s b v) (accepted env b v s ts)"
  by (induction ts arbitrary: s) (simp_all add: transact_accumulator)

lemma dec_accumulate:
  assumes "homomorphic env dec"
  shows "dec (accumulate env a c) = dec a + cleartext_of dec c"
proof -
  from assms have "dec (initIfNeeded env a) = dec a"
    by (simp add: homomorphic_def initIfNeeded_def)
  with assms show ?thesis
    by (cases c) (simp add: homomorphic_def accumulate_def cleartext_of_def add.assoc)
qed

lemma dec_foldl_accumulate:
  assumes "homomorphic env dec"
  shows "dec (foldl (accumulate env) a cs) = dec a + sum_list (map (cleartext_of dec) cs)"
  by (induction cs arbitrary: a) (simp_all add: dec_accumulate [OF assms] add.assoc)

lemma sum_list_mset_cong:
  fixes f :: "'a \<Rightarrow> uint32"
  assumes "mset xs = mset ys"
  shows "sum_list (map f xs) = sum_list (map f ys)"
proof -
  have "sum_list (map f xs) = sum_mset (image_mset f (mset xs))"
    by (simp add: sum_mset_sum_list [symmetric])
  also have "\<dots> = sum_mset (image_mset f (mset ys))" using assms by simp
  also have "\<dots> = sum_list (map f ys)"
    by (simp add: sum_mset_sum_list [symmetric])
  finally show ?thesis .
qed

text \<open>
  Claim C4. For a homomorphic scheme, the cleartext of the accumulator of a key after
  any trace is its cleartext before the trace plus the sum, over exactly the accepted
  \<^verbatim>\<open>submitCrop\<close> calls into the key, of the three submitted fields; from the constructor
  it is that sum. The value depends on the accepted contributions as a multiset only,
  not on the order of their acceptance.
\<close>

theorem accumulator_is_sum_of_accepted:
  assumes "homomorphic env dec"
  shows "dec (batchAccumulators (run env s ts) batchId version) =
           dec (batchAccumulators s batchId version) +
           sum_list (map (cleartext_of dec) (accepted env batchId version s ts)) \<and>
         dec (batchAccumulators (run env (constructor env deployer) ts) batchId version) =
           sum_list (map (cleartext_of dec)
             (accepted env batchId version (constructor env deployer) ts)) \<and>
         (mset (accepted env batchId version s' ts') = mset (accepted env batchId version s ts) \<and>
          dec (batchAccumulators s' batchId version) = dec (batchAccumulators s batchId version)
          \<longrightarrow> dec (batchAccumulators (run env s' ts') batchId version) =
               dec (batchAccumulators (run env s ts) batchId version))"
proof -
  have rel: "dec (batchAccumulators (run env s0 ts0) batchId version) =
           dec (batchAccumulators s0 batchId version) +
           sum_list (map (cleartext_of dec) (accepted env batchId version s0 ts0))"
    for s0 ts0
    by (simp add: run_accumulator dec_foldl_accumulate [OF assms])
  from assms have "dec (batchAccumulators (constructor env deployer) batchId version) = 0"
    by (simp add: constructor_eq zero_storage_def homomorphic_def)
  with rel [of "constructor env deployer" ts]
  have fresh: "dec (batchAccumulators (run env (constructor env deployer) ts) batchId version) =
           sum_list (map (cleartext_of dec)
             (accepted env batchId version (constructor env deployer) ts))"
    by simp
  have perm: "dec (batchAccumulators (run env s' ts') batchId version) =
               dec (batchAccumulators (run env s ts) batchId version)"
    if "mset (accepted env batchId version s' ts') = mset (accepted env batchId version s ts)"
      and "dec (batchAccumulators s' batchId version) = dec (batchAccumulators s batchId version)"
    using that rel [of s' ts'] rel [of s ts]
      sum_list_mset_cong [of "accepted env batchId version s' ts'"
        "accepted env batchId version s ts" "cleartext_of dec"]
    by simp
  from rel [of s ts] fresh perm show ?thesis by blast
qed

theorem accumulator_is_sum_of_accepted_witness:
  "homomorphic plain_env plain_dec \<and>
   accepted plain_env 100 1 (constructor plain_env 1) open_batch_trace
     = [(Some 3, Some 4, None), (Some 5, Some 2, None)] \<and>
   plain_dec (batchAccumulators (run plain_env (constructor plain_env 1) open_batch_trace) 100 1)
     = 14 \<and>
   mset (accepted plain_env 100 1 (constructor plain_env 1) swapped_batch_trace)
     = mset (accepted plain_env 100 1 (constructor plain_env 1) open_batch_trace) \<and>
   plain_dec (batchAccumulators (run plain_env (constructor plain_env 1) swapped_batch_trace)
         100 1)
     = plain_dec (batchAccumulators (run plain_env (constructor plain_env 1) open_batch_trace)
         100 1)"
proof -
  have h: "homomorphic plain_env plain_dec"
    by (simp add: homomorphic_def plain_env_def plain_dec_def split: option.splits)
  note sum = accumulator_is_sum_of_accepted [OF h, where s = "constructor plain_env 1"
        and s' = "constructor plain_env 1" and deployer = 1 and batchId = 100 and version = 1
        and ts = open_batch_trace and ts' = swapped_batch_trace]
  have a1: "accepted plain_env 100 1 (constructor plain_env 1) open_batch_trace
     = [(Some 3, Some 4, None), (Some 5, Some 2, None)]"
    by (simp add: open_batch_trace_def constructor_eq zero_storage_def
        transact_def op_eqs plain_env_def checked_add_def initIfNeeded_def)
  have a2: "accepted plain_env 100 1 (constructor plain_env 1) swapped_batch_trace
     = [(Some 5, Some 2, None), (Some 3, Some 4, None)]"
    by (simp add: swapped_batch_trace_def constructor_eq zero_storage_def
        transact_def op_eqs plain_env_def checked_add_def initIfNeeded_def)
  have v: "plain_dec (batchAccumulators (run plain_env (constructor plain_env 1)
        open_batch_trace) 100 1) = 14"
    using sum [THEN conjunct2, THEN conjunct1]
    by (simp add: a1 cleartext_of_def plain_dec_def)
  have m: "mset (accepted plain_env 100 1 (constructor plain_env 1) swapped_batch_trace)
     = mset (accepted plain_env 100 1 (constructor plain_env 1) open_batch_trace)"
    by (simp add: a1 a2)
  have e: "plain_dec (batchAccumulators (run plain_env (constructor plain_env 1)
        swapped_batch_trace) 100 1)
     = plain_dec (batchAccumulators (run plain_env (constructor plain_env 1) open_batch_trace)
         100 1)"
    using sum [THEN conjunct2, THEN conjunct2] m by blast
  from h a1 v m e show ?thesis by blast
qed

subsection \<open>The binding hash\<close>

text \<open>
  Claim C7. A successful \<^verbatim>\<open>requestBatchDecryption\<close> stores the Keccak hash of the
  accumulator's handle together with \<^verbatim>\<open>address(this)\<close>. As long as the context is as
  stored, the callback fails, changing nothing, when the hash recomputed from the
  accumulator's handle at callback time is not the stored one. If the handle is
  unchanged the hash check passes (and the callback succeeds when its other checks do);
  if the handle differs the callback fails, Keccak being collision free.
\<close>

theorem binding_hash_checked_at_callback:
  assumes "requestBatchDecryption env sender now batchId requestId s = (Inr (), s1)"
      and "decryptionContexts s2 requestId = decryptionContexts s1 requestId"
  shows "ctx_stateHash (decryptionContexts s1 requestId) =
           keccak_cts env
             [fhe_toBytes32 env (batchAccumulators s batchId (currentModelVersion s))]
             (this env) \<and>
         (hashCiphertexts env
            [fhe_toBytes32 env (batchAccumulators s2 batchId (currentModelVersion s))]
            \<noteq> ctx_stateHash (decryptionContexts s1 requestId) \<longrightarrow>
          (\<exists>e. onBatchDecrypted env requestId cleartexts pf s2 = (Inl e, s2))) \<and>
         (fhe_toBytes32 env (batchAccumulators s2 batchId (currentModelVersion s)) =
            fhe_toBytes32 env (batchAccumulators s batchId (currentModelVersion s)) \<longrightarrow>
          fst (onBatchDecrypted env requestId cleartexts pf s2)
            \<noteq> Inl (Error ''State hash mismatch'')) \<and>
         (fhe_toBytes32 env (batchAccumulators s2 batchId (currentModelVersion s)) =
            fhe_toBytes32 env (batchAccumulators s batchId (currentModelVersion s)) \<and>
          sender \<noteq> 0 \<and> batches s2 batchId = batches s batchId \<and>
          fhe_isInitialized env (batchAccumulators s2 batchId (currentModelVersion s)) \<and>
          fhe_checkSignatures env requestId cleartexts pf \<and>
          abi_decode_uint32 cleartexts \<noteq> None \<longrightarrow>
          fst (onBatchDecrypted env requestId cleartexts pf s2) = Inr ()) \<and>
         (collision_free env \<and>
          fhe_toBytes32 env (batchAccumulators s2 batchId (currentModelVersion s)) \<noteq>
            fhe_toBytes32 env (batchAccumulators s batchId (currentModelVersion s)) \<longrightarrow>
          (\<exists>e. onBatchDecrypted env requestId cleartexts pf s2 = (Inl e, s2)))"
proof -
  let ?h = "fhe_toBytes32 env (batchAccumulators s batchId (currentModelVersion s))"
  let ?h2 = "fhe_toBytes32 env (batchAccumulators s2 batchId (currentModelVersion s))"
  from assms(1) have ok: "exists (batches s batchId)" "closed (batches s batchId)"
      "modelVersion (batches s batchId) = currentModelVersion s"
    and ctx: "decryptionContexts s1 requestId =
      \<lparr>ctx_batchId = batchId, ctx_modelVersion = currentModelVersion s,
       ctx_stateHash = hashCiphertexts env [?h], ctx_processed = False,
       ctx_requester = sender\<rparr>"
    by (auto simp add: requestBatchDecryption_eq split: if_splits)
  have stored: "ctx_stateHash (decryptionContexts s1 requestId) =
      keccak_cts env [?h] (this env)"
    by (simp add: ctx hashCiphertexts_def)
  have differ: "\<exists>e. onBatchDecrypted env requestId cleartexts pf s2 = (Inl e, s2)"
    if "hashCiphertexts env [?h2] \<noteq> ctx_stateHash (decryptionContexts s1 requestId)"
    using that by (simp add: onBatchDecrypted_eq assms(2) ctx Let_def split: option.splits)
  have same: "fst (onBatchDecrypted env requestId cleartexts pf s2)
      \<noteq> Inl (Error ''State hash mismatch'')"
    if "?h2 = ?h"
    using that by (simp add: onBatchDecrypted_eq assms(2) ctx Let_def split: option.splits)
  have succeed: "fst (onBatchDecrypted env requestId cleartexts pf s2) = Inr ()"
    if "?h2 = ?h \<and> sender \<noteq> 0 \<and> batches s2 batchId = batches s batchId \<and>
        fhe_isInitialized env (batchAccumulators s2 batchId (currentModelVersion s)) \<and>
        fhe_checkSignatures env requestId cleartexts pf \<and>
        abi_decode_uint32 cleartexts \<noteq> None"
    using that ok
    by (auto simp add: onBatchDecrypted_eq assms(2) ctx Let_def split: option.splits)
  have collide: "\<exists>e. onBatchDecrypted env requestId cleartexts pf s2 = (Inl e, s2)"
    if "collision_free env \<and> ?h2 \<noteq> ?h"
  proof -
    from that have "hashCiphertexts env [?h2] \<noteq> hashCiphertexts env [?h]"
      unfolding collision_free_def by blast
    then show ?thesis using differ by (simp add: ctx)
  qed
  from stored differ same succeed collide show ?thesis by blast
qed

theorem binding_hash_checked_at_callback_witness:
  "requestBatchDecryption plain_env 1 500 100 7 closed_batch_state
     = (Inr (), pending_request_state) \<and>
   collision_free plain_env \<and>
   ctx_stateHash (decryptionContexts pending_request_state 7) = 15 \<and>
   fst (onBatchDecrypted plain_env 7 cleartext_14 [1] pending_request_state) = Inr () \<and>
   fhe_toBytes32 plain_env
       (batchAccumulators (pending_request_state\<lparr>batchAccumulators := (\<lambda>_ _. Some 99)\<rparr>) 100 1)
     \<noteq> fhe_toBytes32 plain_env (batchAccumulators closed_batch_state 100 1) \<and>
   onBatchDecrypted plain_env 7 cleartext_14 [1]
       (pending_request_state\<lparr>batchAccumulators := (\<lambda>_ _. Some 99)\<rparr>)
     = (Inl (Error ''State hash mismatch''),
        pending_request_state\<lparr>batchAccumulators := (\<lambda>_ _. Some 99)\<rparr>)"
proof -
  have h1: "requestBatchDecryption plain_env 1 500 100 7 closed_batch_state
     = (Inr (), pending_request_state)"
    by (simp add: pending_request_state_def transact_def requestBatchDecryption_eq
        closed_batch_state_eq checked_add_def plain_env_def)
  have h2: "decryptionContexts pending_request_state 7 =
      decryptionContexts pending_request_state 7"
    by simp
  have h3: "decryptionContexts (pending_request_state\<lparr>batchAccumulators := (\<lambda>_ _. Some 99)\<rparr>) 7
      = decryptionContexts pending_request_state 7"
    by simp
  have cf: "collision_free plain_env"
    by (simp add: collision_free_def hashCiphertexts_def plain_env_def)
  note same = binding_hash_checked_at_callback [OF h1 h2, of cleartext_14 "[1]"]
  note other = binding_hash_checked_at_callback [OF h1 h3, of cleartext_14 "[1]"]
  have st: "ctx_stateHash (decryptionContexts pending_request_state 7) = 15"
    using same [THEN conjunct1] by (simp add: closed_batch_state_eq plain_env_def)
  have ok: "fst (onBatchDecrypted plain_env 7 cleartext_14 [1] pending_request_state) = Inr ()"
    using same
    by (simp add: pending_request_state_eq closed_batch_state_eq plain_env_def
        abi_decode_uint32_def be_nat_def cleartext_14_def)
  have ne: "fhe_toBytes32 plain_env
       (batchAccumulators (pending_request_state\<lparr>batchAccumulators := (\<lambda>_ _. Some 99)\<rparr>) 100 1)
     \<noteq> fhe_toBytes32 plain_env (batchAccumulators closed_batch_state 100 1)"
    by (simp add: closed_batch_state_eq plain_env_def)
  have bad: "onBatchDecrypted plain_env 7 cleartext_14 [1]
       (pending_request_state\<lparr>batchAccumulators := (\<lambda>_ _. Some 99)\<rparr>)
     = (Inl (Error ''State hash mismatch''),
        pending_request_state\<lparr>batchAccumulators := (\<lambda>_ _. Some 99)\<rparr>)"
    using other
    by (simp add: onBatchDecrypted_eq pending_request_state_eq plain_env_def
        hashCiphertexts_def Let_def)
  from h1 cf st ok ne bad show ?thesis by blast
qed

end
